theory Spec2Isabelle
  imports Complex_Main
begin

section \<open>Data model of \<^verbatim>\<open>tienda_patrones1.1.py\<close>\<close>

text \<open>
  The program keeps all of its state in process-wide objects: the singleton
  \<^verbatim>\<open>ConexionBaseDatos\<close> (the dictionaries \<^verbatim>\<open>productos\<close>, \<^verbatim>\<open>clientes\<close>, \<^verbatim>\<open>carritos\<close>,
  \<^verbatim>\<open>facturas\<close> and the counter \<^verbatim>\<open>seq_factura\<close>), the \<^verbatim>\<open>Contabilidad\<close> object of the
  accounting service, and the class attributes of two observers. The embedding passes
  one record \<open>estado\<close> holding all of them.

  Python lists are mutable objects that can be shared. The line items of a cart and of
  an invoice are therefore not stored in the records themselves: a \<open>Carrito\<close> and a
  \<open>Factura\<close> hold the address of a list in the store \<open>listas\<close>, and \<open>sig_dir\<close> is the next
  unused address. \<^verbatim>\<open>append\<close> and \<^verbatim>\<open>clear\<close> write at an existing address, \<^verbatim>\<open>copy()\<close>, a list
  comprehension and \<^verbatim>\<open>[]\<close> allocate a new one.

  Python's \<^verbatim>\<open>int\<close> is \<open>int\<close>. Prices and totals are Python floats; they are modelled as
  \<open>real\<close>, so rounding is not part of the model. \<^verbatim>\<open>datetime.now()\<close> values are left out.
  The dictionary \<^verbatim>\<open>usuarios\<close> (log-in data) plays no part in what follows and is left out.
  Of the console output only two kinds of \<^verbatim>\<open>Logger\<close> lines are kept, in \<open>logger\<close>: the line
  \<^verbatim>\<open>BusEventos.publicar\<close> writes for each published event, and the lines of
  \<^verbatim>\<open>Logger.error\<close>. Message texts are written without accents.
\<close>

type_synonym dir = nat
type_synonym lineas = "(int \<times> int) list"

record producto_fila =
  idProducto :: int
  nombre :: string
  descripcion :: string
  precio :: real
  stock :: int

record productoDto =
  dto_idProducto :: int
  dto_nombre :: string
  dto_descripcion :: "string option"
  dto_precio :: real
  dto_stock :: int

record Cliente =
  idCliente :: int
  cl_nombre :: string
  direccion :: string
  telefono :: string

record Carrito =
  idCarrito :: int
  ca_productos :: dir
  ca_total :: real

record Factura =
  idFactura :: int
  cliente :: Cliente
  fa_productos :: dir
  fa_total :: real

record datos =
  d_idProducto :: int
  d_evento :: string

record ResultadoPago =
  ok :: bool
  monto :: real

datatype excepcion = ValueError string | RuntimeError string

datatype linea_log = Publicando string datos | Error string

text \<open>
  The handlers a bus can hold are the \<^verbatim>\<open>actualizar\<close> methods of the classes that implement
  \<^verbatim>\<open>IObservadorProducto\<close>: the four observer classes, and \<^verbatim>\<open>Carrito\<close> itself (the cart stored
  under the given key of \<^verbatim>\<open>carritos\<close>).
\<close>

datatype observador =
    ObservadorCarrito
  | ObservadorContabilidad
  | ObservadorAuditoria
  | ObservadorNotificacion
  | CarritoObservador int

record estado =
  productos :: "int \<rightharpoonup> producto_fila"
  clientes :: "int \<rightharpoonup> Cliente"
  carritos :: "int \<rightharpoonup> Carrito"
  facturas :: "int \<rightharpoonup> Factura"
  seq_factura :: int
  listas :: "dir \<Rightarrow> lineas"
  sig_dir :: dir
  ingresos :: real
  egresos :: real
  ingresos_acumulados :: real
  historial :: "(int \<times> string) list"
  logger :: "linea_log list"

type_synonym 'a res = "(excepcion + 'a) \<times> estado"

text \<open>\<^verbatim>\<open>ConexionBaseDatos.__new__\<close> on first use, with the other objects as created.\<close>

definition inicial :: estado where
  "inicial = \<lparr>productos = Map.empty, clientes = Map.empty, carritos = Map.empty,
     facturas = Map.empty, seq_factura = 1, listas = (\<lambda>_. []), sig_dir = 0,
     ingresos = 0, egresos = 0, ingresos_acumulados = 0, historial = [], logger = []\<rparr>"

section \<open>Strings\<close>

definition minuscula :: "char \<Rightarrow> char" where
  "minuscula c =
     (case map_of (zip ''ABCDEFGHIJKLMNOPQRSTUVWXYZ'' ''abcdefghijklmnopqrstuvwxyz'') c of
        None \<Rightarrow> c | Some l \<Rightarrow> l)"

definition minusculas :: "string \<Rightarrow> string" where
  "minusculas s = map minuscula s"

fun empieza_con :: "string \<Rightarrow> string \<Rightarrow> bool" where
  "empieza_con [] t = True"
| "empieza_con (a # as) [] = False"
| "empieza_con (a # as) (b # bs) = (a = b \<and> empieza_con as bs)"

text \<open>\<open>contiene sub t\<close> is Python's \<^verbatim>\<open>sub in t\<close> on strings.\<close>

fun contiene :: "string \<Rightarrow> string \<Rightarrow> bool" where
  "contiene sub [] = (sub = [])"
| "contiene sub (c # cs) = (empieza_con sub (c # cs) \<or> contiene sub cs)"

definition digito :: "nat \<Rightarrow> char" where
  "digito n = ''0123456789'' ! (n mod 10)"

function str_nat :: "nat \<Rightarrow> string" where
  "str_nat n = (if n < 10 then [digito n] else str_nat (n div 10) @ [digito n])"
  by pat_completeness auto
termination
  by (relation "measure id") auto

declare str_nat.simps [simp del]

text \<open>\<open>str_int\<close> is Python's \<^verbatim>\<open>str\<close> on an \<^verbatim>\<open>int\<close>, as an f-string formats it.\<close>

definition str_int :: "int \<Rightarrow> string" where
  "str_int i = (if i < 0 then CHR ''-'' # str_nat (nat (- i)) else str_nat (nat i))"

section \<open>The list store\<close>

definition nueva_lista :: "lineas \<Rightarrow> estado \<Rightarrow> dir \<times> estado" where
  "nueva_lista xs s =
     (sig_dir s, s\<lparr>listas := (listas s)(sig_dir s := xs), sig_dir := Suc (sig_dir s)\<rparr>)"

text \<open>The line items of the cart stored under a key (none when there is no such cart).\<close>

definition lineas_carrito :: "estado \<Rightarrow> int \<Rightarrow> lineas" where
  "lineas_carrito s k = (case carritos s k of None \<Rightarrow> [] | Some c \<Rightarrow> listas s (ca_productos c))"

definition lineas_factura :: "estado \<Rightarrow> Factura \<Rightarrow> lineas" where
  "lineas_factura s f = listas s (fa_productos f)"

section \<open>BusEventos\<close>

text \<open>
  The bus is generic in its handlers (any callable in the source): \<open>llamar h d\<close> is the
  effect of the call \<^verbatim>\<open>handler(datos)\<close> and \<open>info n d\<close> the effect of the \<^verbatim>\<open>Logger().info\<close>
  line that \<^verbatim>\<open>publicar\<close> writes first.
\<close>

record 'h BusEventos =
  suscriptores :: "string \<rightharpoonup> 'h list"

definition bus_vacio :: "'h BusEventos" where
  "bus_vacio = \<lparr>suscriptores = Map.empty\<rparr>"

text \<open>\<^verbatim>\<open>self.suscriptores.get(nombreEvento, [])\<close>\<close>

definition manejadores :: "'h BusEventos \<Rightarrow> string \<Rightarrow> 'h list" where
  "manejadores bus n = (case suscriptores bus n of None \<Rightarrow> [] | Some hs \<Rightarrow> hs)"

definition suscribir :: "string \<Rightarrow> 'h \<Rightarrow> 'h BusEventos \<Rightarrow> 'h BusEventos" where
  "suscribir n h bus = bus\<lparr>suscriptores := (suscriptores bus)(n \<mapsto> manejadores bus n @ [h])\<rparr>"

text \<open>The loop \<^verbatim>\<open>for handler in ...: handler(datos)\<close>.\<close>

fun despachar :: "('h \<Rightarrow> 'd \<Rightarrow> 's \<Rightarrow> 's) \<Rightarrow> 'h list \<Rightarrow> 'd \<Rightarrow> 's \<Rightarrow> 's" where
  "despachar llamar [] d s = s"
| "despachar llamar (h # hs) d s = despachar llamar hs d (llamar h d s)"

definition publicar ::
  "(string \<Rightarrow> 'd \<Rightarrow> 's \<Rightarrow> 's) \<Rightarrow> ('h \<Rightarrow> 'd \<Rightarrow> 's \<Rightarrow> 's) \<Rightarrow> 'h BusEventos \<Rightarrow> string \<Rightarrow> 'd \<Rightarrow> 's \<Rightarrow> 's" where
  "publicar info llamar bus n d s = despachar llamar (manejadores bus n) d (info n d s)"

section \<open>Observers\<close>

text \<open>
  \<^verbatim>\<open>Carrito.onProductoActualizado\<close>: when the event text contains "agotado", the cart's
  \<^verbatim>\<open>productos\<close> attribute is rebound to a new, filtered list.
\<close>

definition onProductoActualizado :: "int \<Rightarrow> int \<Rightarrow> string \<Rightarrow> estado \<Rightarrow> estado" where
  "onProductoActualizado k idP ev s =
     (case carritos s k of
        None \<Rightarrow> s
      | Some c \<Rightarrow>
          if contiene ''agotado'' (minusculas ev) then
            (case nueva_lista (filter (\<lambda>(p, c). p \<noteq> idP) (listas s (ca_productos c))) s of
               (a, s1) \<Rightarrow> s1\<lparr>carritos := (carritos s1)(k \<mapsto> c\<lparr>ca_productos := a\<rparr>)\<rparr>)
          else s)"

fun actualizar :: "observador \<Rightarrow> datos \<Rightarrow> estado \<Rightarrow> estado" where
  "actualizar ObservadorCarrito d s = s"
| "actualizar ObservadorContabilidad d s =
     (case productos s (d_idProducto d) of
        None \<Rightarrow> s
      | Some fila \<Rightarrow> s\<lparr>ingresos_acumulados := ingresos_acumulados s + precio fila\<rparr>)"
| "actualizar ObservadorAuditoria d s =
     s\<lparr>historial := historial s @ [(d_idProducto d, d_evento d)]\<rparr>"
| "actualizar ObservadorNotificacion d s = s"
| "actualizar (CarritoObservador k) d s = onProductoActualizado k (d_idProducto d) (d_evento d) s"

definition info_publicando :: "string \<Rightarrow> datos \<Rightarrow> estado \<Rightarrow> estado" where
  "info_publicando n d s = s\<lparr>logger := logger s @ [Publicando n d]\<rparr>"

text \<open>\<^verbatim>\<open>busEventos.publicar\<close> on the program's state.\<close>

abbreviation emitir :: "observador BusEventos \<Rightarrow> string \<Rightarrow> datos \<Rightarrow> estado \<Rightarrow> estado" where
  "emitir \<equiv> publicar info_publicando actualizar"

text \<open>The subscriptions of \<^verbatim>\<open>demo()\<close>, in its order.\<close>

definition bus_demo :: "observador BusEventos" where
  "bus_demo =
     suscribir ''orden_completada'' ObservadorAuditoria
      (suscribir ''venta_realizada'' ObservadorNotificacion
      (suscribir ''venta_realizada'' ObservadorAuditoria
      (suscribir ''venta_realizada'' ObservadorContabilidad
      (suscribir ''venta_realizada'' ObservadorCarrito
      (suscribir ''producto_actualizado'' ObservadorNotificacion
      (suscribir ''producto_actualizado'' ObservadorAuditoria
      (suscribir ''producto_actualizado'' ObservadorCarrito bus_vacio)))))))"

section \<open>Carrito\<close>

text \<open>The loop of \<^verbatim>\<open>Carrito.calcularTotal\<close>, with its accumulator.\<close>

fun sumar_lineas :: "(int \<rightharpoonup> producto_fila) \<Rightarrow> lineas \<Rightarrow> real \<Rightarrow> real" where
  "sumar_lineas ps [] t = t"
| "sumar_lineas ps ((idP, cant) # r) t =
     sumar_lineas ps r (t + (case ps idP of None \<Rightarrow> 0 | Some p \<Rightarrow> precio p) * of_int cant)"

text \<open>
  The methods of a \<^verbatim>\<open>Carrito\<close> are called on the cart stored under key \<open>k\<close>; carts are never
  removed from \<^verbatim>\<open>carritos\<close>, so the \<open>None\<close> branches are not reached from the callers.
\<close>

definition calcularTotal :: "int \<Rightarrow> estado \<Rightarrow> real \<times> estado" where
  "calcularTotal k s =
     (case carritos s k of
        None \<Rightarrow> (0, s)
      | Some c \<Rightarrow>
          (let t = sumar_lineas (productos s) (listas s (ca_productos c)) 0
           in (t, s\<lparr>carritos := (carritos s)(k \<mapsto> c\<lparr>ca_total := t\<rparr>)\<rparr>)))"

definition vaciarCarrito :: "int \<Rightarrow> estado \<Rightarrow> estado" where
  "vaciarCarrito k s =
     (case carritos s k of
        None \<Rightarrow> s
      | Some c \<Rightarrow> s\<lparr>listas := (listas s)(ca_productos c := []),
                    carritos := (carritos s)(k \<mapsto> c\<lparr>ca_total := 0\<rparr>)\<rparr>)"

section \<open>ProductoRepositorioImpl\<close>

definition obtenerPorId :: "int \<Rightarrow> estado \<Rightarrow> excepcion + producto_fila" where
  "obtenerPorId idP s =
     (case productos s idP of
        None \<Rightarrow> Inl (ValueError ''Producto no encontrado'')
      | Some row \<Rightarrow> Inr row)"

definition guardar :: "productoDto \<Rightarrow> estado \<Rightarrow> estado" where
  "guardar dto s =
     s\<lparr>productos := (productos s)(dto_idProducto dto \<mapsto>
         \<lparr>idProducto = dto_idProducto dto, nombre = dto_nombre dto,
          descripcion = (case dto_descripcion dto of None \<Rightarrow> [] | Some t \<Rightarrow> t),
          precio = dto_precio dto, stock = dto_stock dto\<rparr>)\<rparr>"

definition actualizarInventario :: "int \<Rightarrow> int \<Rightarrow> estado \<Rightarrow> unit res" where
  "actualizarInventario idP delta s =
     (case productos s idP of
        None \<Rightarrow> (Inl (ValueError ''Producto no existe''), s)
      | Some row \<Rightarrow>
          (Inr (), s\<lparr>productos := (productos s)(idP \<mapsto> row\<lparr>stock := stock row + delta\<rparr>)\<rparr>))"

section \<open>InventarioServiceImpl\<close>

definition ingresarProducto :: "observador BusEventos \<Rightarrow> productoDto \<Rightarrow> estado \<Rightarrow> estado" where
  "ingresarProducto bus dto s =
     emitir bus ''producto_actualizado''
       \<lparr>d_idProducto = dto_idProducto dto, d_evento = ''Ingreso a inventario''\<rparr> (guardar dto s)"

definition consultarInventario :: "int \<Rightarrow> estado \<Rightarrow> excepcion + int" where
  "consultarInventario idP s =
     (case obtenerPorId idP s of Inl e \<Rightarrow> Inl e | Inr p \<Rightarrow> Inr (stock p))"

text \<open>The loop \<^verbatim>\<open>for _ in range(cantidad)\<close>, run \<open>nat cantidad\<close> times.\<close>

fun publicar_ventas :: "observador BusEventos \<Rightarrow> nat \<Rightarrow> int \<Rightarrow> estado \<Rightarrow> estado" where
  "publicar_ventas bus 0 idP s = s"
| "publicar_ventas bus (Suc n) idP s =
     publicar_ventas bus n idP
       (emitir bus ''venta_realizada'' \<lparr>d_idProducto = idP, d_evento = ''Venta realizada''\<rparr> s)"

definition darSalidaProducto :: "observador BusEventos \<Rightarrow> int \<Rightarrow> int \<Rightarrow> estado \<Rightarrow> unit res" where
  "darSalidaProducto bus idP cantidad s =
     (case actualizarInventario idP (- cantidad) s of
        (Inl e, s1) \<Rightarrow> (Inl e, s1)
      | (Inr u, s1) \<Rightarrow>
          (let s2 = publicar_ventas bus (nat cantidad) idP s1 in
           case consultarInventario idP s2 of
             Inl e \<Rightarrow> (Inl e, s2)
           | Inr st \<Rightarrow>
               if st \<le> 0 then
                 (Inr (), emitir bus ''producto_actualizado''
                            \<lparr>d_idProducto = idP, d_evento = ''Producto agotado''\<rparr> s2)
               else (Inr (), s2)))"

section \<open>ContabilidadServiceImpl and PasarelaPago\<close>

definition registrarIngreso :: "Factura \<Rightarrow> estado \<Rightarrow> estado" where
  "registrarIngreso venta s = s\<lparr>ingresos := ingresos s + fa_total venta\<rparr>"

definition procesarPago :: "real \<Rightarrow> ResultadoPago" where
  "procesarPago m = \<lparr>ok = True, monto = m\<rparr>"

section \<open>OrdenServiceImpl\<close>

text \<open>Step 3 of \<^verbatim>\<open>verificar\<close>: the loop over the cart's list; an exception ends it.\<close>

fun descontarInventario :: "observador BusEventos \<Rightarrow> lineas \<Rightarrow> estado \<Rightarrow> unit res" where
  "descontarInventario bus [] s = (Inr (), s)"
| "descontarInventario bus ((idP, cant) # r) s =
     (case darSalidaProducto bus idP cant s of
        (Inl e, s1) \<Rightarrow> (Inl e, s1)
      | (Inr u, s1) \<Rightarrow> descontarInventario bus r s1)"

definition cliente_por_defecto :: "int \<Rightarrow> Cliente" where
  "cliente_por_defecto i =
     \<lparr>idCliente = i, cl_nombre = ''Cliente '' @ str_int i, direccion = ''-'', telefono = ''-''\<rparr>"

text \<open>Step 4 of \<^verbatim>\<open>verificar\<close>: the invoice takes the next id and a copy of the cart's list.\<close>

definition crearFactura :: "int \<Rightarrow> int \<Rightarrow> real \<Rightarrow> estado \<Rightarrow> Factura \<times> estado" where
  "crearFactura idCl idCa t s =
     (let idF = seq_factura s;
          s1 = s\<lparr>seq_factura := seq_factura s + 1\<rparr>;
          cliente_row = (case clientes s1 idCl of None \<Rightarrow> cliente_por_defecto idCl | Some r \<Rightarrow> r)
      in case nueva_lista (lineas_carrito s1 idCa) s1 of
           (a, s2) \<Rightarrow>
             (let factura = \<lparr>idFactura = idF, cliente = cliente_row, fa_productos = a, fa_total = t\<rparr>
              in (factura, s2\<lparr>facturas := (facturas s2)(idF \<mapsto> factura)\<rparr>)))"

definition verificar :: "observador BusEventos \<Rightarrow> int \<Rightarrow> int \<Rightarrow> estado \<Rightarrow> Factura res" where
  "verificar bus idCl idCa s =
     (case carritos s idCa of
        None \<Rightarrow> (Inl (ValueError ''Carrito vacio o inexistente''), s)
      | Some carrito \<Rightarrow>
          if listas s (ca_productos carrito) = [] then
            (Inl (ValueError ''Carrito vacio o inexistente''), s)
          else
            (case calcularTotal idCa s of
               (t, s1) \<Rightarrow>
                 if \<not> ok (procesarPago t) then (Inl (RuntimeError ''Pago rechazado''), s1)
                 else
                   (case descontarInventario bus (lineas_carrito s1 idCa) s1 of
                      (Inl e, s2) \<Rightarrow> (Inl e, s2)
                    | (Inr u, s2) \<Rightarrow>
                        (case crearFactura idCl idCa t s2 of
                           (factura, s3) \<Rightarrow>
                             (let s4 = registrarIngreso factura s3;
                                  s5 = emitir bus ''orden_completada''
                                         \<lparr>d_idProducto = 0,
                                          d_evento = ''Orden #'' @ str_int (idFactura factura) @ '' completada''\<rparr> s4;
                                  s6 = vaciarCarrito idCa s5
                              in (Inr factura, s6))))))"

section \<open>FachadaTienda\<close>

text \<open>
  \<^verbatim>\<open>carritos.setdefault(idCliente, Carrito(idCliente))\<close>. (Python builds the default cart
  also when the key is present; that cart is dropped at once and is not modelled.)
\<close>

definition carrito_setdefault :: "int \<Rightarrow> estado \<Rightarrow> Carrito \<times> estado" where
  "carrito_setdefault k s =
     (case carritos s k of
        Some c \<Rightarrow> (c, s)
      | None \<Rightarrow>
          (case nueva_lista [] s of
             (a, s1) \<Rightarrow>
               (let c = \<lparr>idCarrito = k, ca_productos = a, ca_total = 0\<rparr>
                in (c, s1\<lparr>carritos := (carritos s1)(k \<mapsto> c)\<rparr>))))"

definition clientes_setdefault :: "int \<Rightarrow> estado \<Rightarrow> estado" where
  "clientes_setdefault k s =
     (case clientes s k of
        Some r \<Rightarrow> s
      | None \<Rightarrow> s\<lparr>clientes := (clientes s)(k \<mapsto> cliente_por_defecto k)\<rparr>)"

definition agregarAlCarrito :: "int \<Rightarrow> int \<Rightarrow> int \<Rightarrow> estado \<Rightarrow> unit res" where
  "agregarAlCarrito idCl idP cantidad s =
     (case carrito_setdefault idCl (clientes_setdefault idCl s) of
        (carrito, s1) \<Rightarrow>
          (case productos s1 idP of
             None \<Rightarrow> (Inr (), s1\<lparr>logger := logger s1 @ [Error ''Producto no encontrado'']\<rparr>)
           | Some fila \<Rightarrow>
               if stock fila < cantidad then
                 (Inr (), s1\<lparr>logger := logger s1 @ [Error ''Stock insuficiente'']\<rparr>)
               else
                 (let s2 = s1\<lparr>listas := (listas s1)(ca_productos carrito :=
                                 listas s1 (ca_productos carrito) @ [(idP, cantidad)])\<rparr>
                  in (Inr (), snd (calcularTotal idCl s2)))))"

definition finalizarCompra :: "observador BusEventos \<Rightarrow> int \<Rightarrow> int \<Rightarrow> estado \<Rightarrow> Factura res" where
  "finalizarCompra bus idCl idCa s = verificar bus idCl idCa s"

section \<open>Runs of the program\<close>

text \<open>
  A run is a list of calls made by a caller that goes on after an exception (the state
  is then what the failed call left): \<^verbatim>\<open>InventarioServiceImpl.ingresarProducto\<close>,
  \<^verbatim>\<open>FachadaTienda.agregarAlCarrito\<close>, \<^verbatim>\<open>FachadaTienda.finalizarCompra\<close>,
  \<^verbatim>\<open>InventarioServiceImpl.darSalidaProducto\<close>, \<^verbatim>\<open>ProductoRepositorioImpl.actualizarInventario\<close>,
  and, on the cart stored under a key (nothing happens when there is none),
  \<^verbatim>\<open>Carrito.vaciarCarrito\<close>, \<^verbatim>\<open>Carrito.calcularTotal\<close> and \<^verbatim>\<open>Carrito.actualizar\<close>.
\<close>

datatype operacion =
    OpIngresar productoDto
  | OpAgregar int int int
  | OpFinalizar int int
  | OpDarSalida int int
  | OpActualizarInventario int int
  | OpVaciar int
  | OpCalcularTotal int
  | OpActualizarCarrito int int string

fun aplicar :: "observador BusEventos \<Rightarrow> operacion \<Rightarrow> estado \<Rightarrow> Factura option \<times> estado" where
  "aplicar bus (OpIngresar dto) s = (None, ingresarProducto bus dto s)"
| "aplicar bus (OpAgregar c p n) s = (None, snd (agregarAlCarrito c p n s))"
| "aplicar bus (OpFinalizar c k) s =
     (case finalizarCompra bus c k s of (Inl e, s1) \<Rightarrow> (None, s1) | (Inr f, s1) \<Rightarrow> (Some f, s1))"
| "aplicar bus (OpDarSalida p n) s = (None, snd (darSalidaProducto bus p n s))"
| "aplicar bus (OpActualizarInventario p n) s = (None, snd (actualizarInventario p n s))"
| "aplicar bus (OpVaciar k) s = (None, vaciarCarrito k s)"
| "aplicar bus (OpCalcularTotal k) s = (None, snd (calcularTotal k s))"
| "aplicar bus (OpActualizarCarrito k p ev) s =
     (None, actualizar (CarritoObservador k) \<lparr>d_idProducto = p, d_evento = ev\<rparr> s)"

text \<open>The state after a run, and the invoices its successful checkouts returned, in order.\<close>

fun correr :: "observador BusEventos \<Rightarrow> operacion list \<Rightarrow> estado \<Rightarrow> estado" where
  "correr bus [] s = s"
| "correr bus (op # ops) s = correr bus ops (snd (aplicar bus op s))"

fun facturas_emitidas :: "observador BusEventos \<Rightarrow> operacion list \<Rightarrow> estado \<Rightarrow> Factura list" where
  "facturas_emitidas bus [] s = []"
| "facturas_emitidas bus (op # ops) s =
     (case aplicar bus op s of
        (None, s1) \<Rightarrow> facturas_emitidas bus ops s1
      | (Some f, s1) \<Rightarrow> f # facturas_emitidas bus ops s1)"

section \<open>Notions used in the statements\<close>



text \<open>The two events of \<^verbatim>\<open>darSalidaProducto\<close>, as \<^verbatim>\<open>publicar\<close> logs them.\<close>

definition venta_realizada :: "int \<Rightarrow> linea_log" where
  "venta_realizada idP =
     Publicando ''venta_realizada'' \<lparr>d_idProducto = idP, d_evento = ''Venta realizada''\<rparr>"

definition producto_agotado :: "int \<Rightarrow> linea_log" where
  "producto_agotado idP =
     Publicando ''producto_actualizado'' \<lparr>d_idProducto = idP, d_evento = ''Producto agotado''\<rparr>"

text \<open>
  Well-formed list store: every address held by a cart or an invoice has been allocated,
  no cart shares its list with an invoice, and every invoice key is below the counter.
\<close>

definition bien_formado :: "estado \<Rightarrow> bool" where
  "bien_formado s \<longleftrightarrow>
     (\<forall>k c. carritos s k = Some c \<longrightarrow> ca_productos c < sig_dir s) \<and>
     (\<forall>i f. facturas s i = Some f \<longrightarrow> fa_productos f < sig_dir s \<and> i < seq_factura s) \<and>
     (\<forall>k c i f. carritos s k = Some c \<longrightarrow> facturas s i = Some f \<longrightarrow> ca_productos c \<noteq> fa_productos f)"

text \<open>What the event handlers and the inventory operations leave alone.\<close>

definition extiende :: "estado \<Rightarrow> estado \<Rightarrow> bool" where
  "extiende s s' \<longleftrightarrow>
     clientes s' = clientes s \<and> facturas s' = facturas s \<and> seq_factura s' = seq_factura s \<and>
     ingresos s' = ingresos s \<and> egresos s' = egresos s \<and>
     dom (productos s') = dom (productos s) \<and> dom (carritos s') = dom (carritos s) \<and>
     sig_dir s \<le> sig_dir s' \<and> (\<forall>a. a < sig_dir s \<longrightarrow> listas s' a = listas s a)"

text \<open>Every stored invoice is still stored, with the same fields and the same line items.\<close>

definition facturas_intactas :: "estado \<Rightarrow> estado \<Rightarrow> bool" where
  "facturas_intactas s s' \<longleftrightarrow>
     (\<forall>i f. facturas s i = Some f \<longrightarrow>
        facturas s' i = Some f \<and> listas s' (fa_productos f) = listas s (fa_productos f))"

text \<open>The products of \<^verbatim>\<open>demo()\<close> used in the examples.\<close>

definition zapatilla_deportiva :: productoDto where
  "zapatilla_deportiva = \<lparr>dto_idProducto = 101, dto_nombre = ''Zapatilla Deportiva'',
     dto_descripcion = Some ''Running pro'', dto_precio = 120000, dto_stock = 10\<rparr>"

definition zapatilla_casual :: productoDto where
  "zapatilla_casual = \<lparr>dto_idProducto = 102, dto_nombre = ''Zapatilla Casual'',
     dto_descripcion = Some ''Daily'', dto_precio = 95000, dto_stock = 5\<rparr>"

definition zapatilla_urbana :: productoDto where
  "zapatilla_urbana = \<lparr>dto_idProducto = 103, dto_nombre = ''Zapatilla Urbana'',
     dto_descripcion = Some ''Street'', dto_precio = 130000, dto_stock = 2\<rparr>"

text \<open>The state of \<^verbatim>\<open>demo()\<close> when it calls \<^verbatim>\<open>finalizarCompra\<close>.\<close>

definition demo_antes_de_pagar :: estado where
  "demo_antes_de_pagar =
     correr bus_demo
       [OpIngresar zapatilla_deportiva, OpIngresar zapatilla_casual, OpIngresar zapatilla_urbana,
        OpAgregar 1 101 2, OpAgregar 1 102 1] inicial"

section \<open>Frame and invariant lemmas\<close>

lemma extiende_refl: "extiende s s"
  by (simp add: extiende_def)

lemma extiende_trans: "extiende a b \<Longrightarrow> extiende b c \<Longrightarrow> extiende a c"
  by (auto simp: extiende_def)

lemma actualizar_productos: "productos (actualizar h d s) = productos s"
  by (cases h) (auto simp: onProductoActualizado_def nueva_lista_def split: option.splits)

lemma actualizar_logger: "logger (actualizar h d s) = logger s"
  by (cases h) (auto simp: onProductoActualizado_def nueva_lista_def split: option.splits)

lemma actualizar_extiende: "extiende s (actualizar h d s)"
  by (cases h) (auto simp: extiende_def onProductoActualizado_def nueva_lista_def split: option.splits)

lemma bien_formadoI:
  assumes "\<And>k c. carritos s k = Some c \<Longrightarrow> ca_productos c < sig_dir s"
    and "\<And>i f. facturas s i = Some f \<Longrightarrow> fa_productos f < sig_dir s"
    and "\<And>i f. facturas s i = Some f \<Longrightarrow> i < seq_factura s"
    and "\<And>k c i f. carritos s k = Some c \<Longrightarrow> facturas s i = Some f \<Longrightarrow> ca_productos c \<noteq> fa_productos f"
  shows "bien_formado s"
  using assms unfolding bien_formado_def by blast

lemma bien_formado_carrito: "bien_formado s \<Longrightarrow> carritos s k = Some c \<Longrightarrow> ca_productos c < sig_dir s"
  unfolding bien_formado_def by blast

lemma bien_formado_factura: "bien_formado s \<Longrightarrow> facturas s i = Some f \<Longrightarrow> fa_productos f < sig_dir s"
  unfolding bien_formado_def by blast

lemma bien_formado_clave: "bien_formado s \<Longrightarrow> facturas s i = Some f \<Longrightarrow> i < seq_factura s"
  unfolding bien_formado_def by blast

lemma bien_formado_disjunto:
  "bien_formado s \<Longrightarrow> carritos s k = Some c \<Longrightarrow> facturas s i = Some f \<Longrightarrow> ca_productos c \<noteq> fa_productos f"
  unfolding bien_formado_def by blast

lemma bien_formado_carritos:
  assumes bf: "bien_formado s"
    and fa: "facturas s' = facturas s" and sq: "seq_factura s' = seq_factura s"
    and sd: "sig_dir s \<le> sig_dir s'"
    and ca: "\<And>k c'. carritos s' k = Some c' \<Longrightarrow>
               (\<exists>k0 c. carritos s k0 = Some c \<and> ca_productos c' = ca_productos c) \<or>
               (sig_dir s \<le> ca_productos c' \<and> ca_productos c' < sig_dir s')"
  shows "bien_formado s'"
proof (rule bien_formadoI)
  fix k c' assume "carritos s' k = Some c'"
  from ca [OF this] show "ca_productos c' < sig_dir s'"
    using bien_formado_carrito [OF bf] sd by (fastforce intro: less_le_trans)
next
  fix i f assume "facturas s' i = Some f"
  then have f: "facturas s i = Some f" by (simp add: fa)
  show "fa_productos f < sig_dir s'"
    using bien_formado_factura [OF bf f] sd by simp
  show "i < seq_factura s'"
    using bien_formado_clave [OF bf f] sq by simp
next
  fix k c' i f assume c': "carritos s' k = Some c'" and "facturas s' i = Some f"
  then have f: "facturas s i = Some f" by (simp add: fa)
  from ca [OF c'] show "ca_productos c' \<noteq> fa_productos f"
    using bien_formado_disjunto [OF bf _ f] bien_formado_factura [OF bf f] by fastforce
qed

lemma onProductoActualizado_bien_formado:
  assumes bf: "bien_formado s"
  shows "bien_formado (onProductoActualizado k idP ev s)"
  by (rule bien_formado_carritos [OF bf])
     (auto simp: onProductoActualizado_def nueva_lista_def split: option.splits if_splits)

lemma actualizar_bien_formado: "bien_formado s \<Longrightarrow> bien_formado (actualizar h d s)"
  by (cases h) (auto simp: onProductoActualizado_bien_formado split: option.splits, auto simp: bien_formado_def)

lemma despachar_productos: "productos (despachar actualizar hs d s) = productos s"
  by (induction hs arbitrary: s) (simp_all add: actualizar_productos)

lemma despachar_logger: "logger (despachar actualizar hs d s) = logger s"
  by (induction hs arbitrary: s) (simp_all add: actualizar_logger)

lemma despachar_extiende: "extiende s (despachar actualizar hs d s)"
  by (induction hs arbitrary: s) (auto intro: extiende_refl extiende_trans actualizar_extiende)

lemma despachar_bien_formado: "bien_formado s \<Longrightarrow> bien_formado (despachar actualizar hs d s)"
  by (induction hs arbitrary: s) (simp_all add: actualizar_bien_formado)

lemma emitir_productos: "productos (emitir bus n d s) = productos s"
  by (simp add: publicar_def despachar_productos info_publicando_def)

lemma emitir_logger: "logger (emitir bus n d s) = logger s @ [Publicando n d]"
  by (simp add: publicar_def despachar_logger info_publicando_def)

lemma info_extiende: "extiende s (info_publicando n d s)"
  by (simp add: extiende_def info_publicando_def)

lemma emitir_extiende: "extiende s (emitir bus n d s)"
  unfolding publicar_def by (rule extiende_trans [OF info_extiende despachar_extiende])

lemma emitir_bien_formado: "bien_formado s \<Longrightarrow> bien_formado (emitir bus n d s)"
  unfolding publicar_def by (rule despachar_bien_formado) (simp add: bien_formado_def info_publicando_def)

lemma publicar_ventas_productos: "productos (publicar_ventas bus n idP s) = productos s"
  by (induction n arbitrary: s) (simp_all add: emitir_productos)

lemma publicar_ventas_logger: "logger (publicar_ventas bus n idP s) = logger s @ replicate n (venta_realizada idP)"
  by (induction n arbitrary: s) (simp_all add: emitir_logger venta_realizada_def replicate_append_same)

lemma publicar_ventas_extiende: "extiende s (publicar_ventas bus n idP s)"
  by (induction n arbitrary: s) (auto intro: extiende_refl extiende_trans emitir_extiende)

lemma publicar_ventas_bien_formado: "bien_formado s \<Longrightarrow> bien_formado (publicar_ventas bus n idP s)"
  by (induction n arbitrary: s) (simp_all add: emitir_bien_formado)

lemma actualizarInventario_Some:
  "productos s idP = Some p \<Longrightarrow>
   actualizarInventario idP delta s =
     (Inr (), s\<lparr>productos := (productos s)(idP \<mapsto> p\<lparr>stock := stock p + delta\<rparr>)\<rparr>)"
  by (simp add: actualizarInventario_def)

lemma actualizarInventario_None:
  "productos s idP = None \<Longrightarrow>
   actualizarInventario idP delta s = (Inl (ValueError ''Producto no existe''), s)"
  by (simp add: actualizarInventario_def)

lemma darSalidaProducto_None:
  "productos s idP = None \<Longrightarrow>
   darSalidaProducto bus idP n s = (Inl (ValueError ''Producto no existe''), s)"
  by (simp add: darSalidaProducto_def actualizarInventario_None)

text \<open>The state after the stock update and the per-unit events of \<open>darSalidaProducto\<close>.\<close>

lemma darSalidaProducto_Some:
  assumes "productos s idP = Some p"
  shows "darSalidaProducto bus idP n s =
    (let s2 = publicar_ventas bus (nat n) idP
                (s\<lparr>productos := (productos s)(idP \<mapsto> p\<lparr>stock := stock p - n\<rparr>)\<rparr>)
     in (Inr (), if stock p - n \<le> 0
                 then emitir bus ''producto_actualizado''
                        \<lparr>d_idProducto = idP, d_evento = ''Producto agotado''\<rparr> s2
                 else s2))"
  using assms
  by (simp add: darSalidaProducto_def actualizarInventario_Some consultarInventario_def
      obtenerPorId_def publicar_ventas_productos Let_def)

lemma stock_extiende: "extiende s (s\<lparr>productos := (productos s)(idP \<mapsto> q)\<rparr>) = (idP \<in> dom (productos s))"
  by (auto simp: extiende_def)

lemma darSalidaProducto_extiende: "extiende s (snd (darSalidaProducto bus idP n s))"
proof (cases "productos s idP")
  case None
  then show ?thesis by (simp add: darSalidaProducto_None extiende_refl)
next
  case (Some p)
  have 1: "extiende s (s\<lparr>productos := (productos s)(idP \<mapsto> p\<lparr>stock := stock p - n\<rparr>)\<rparr>)"
    using Some by (auto simp: stock_extiende)
  show ?thesis
    unfolding darSalidaProducto_Some [OF Some] Let_def
    by (auto intro: extiende_trans [OF 1] extiende_trans [OF publicar_ventas_extiende] emitir_extiende publicar_ventas_extiende)
qed

lemma bien_formado_productos: "bien_formado (s\<lparr>productos := ps\<rparr>) = bien_formado s"
  by (simp add: bien_formado_def)

lemma darSalidaProducto_bien_formado:
  "bien_formado s \<Longrightarrow> bien_formado (snd (darSalidaProducto bus idP n s))"
proof (cases "productos s idP")
  case None
  assume "bien_formado s"
  then show ?thesis using None by (simp add: darSalidaProducto_None)
next
  case (Some p)
  assume "bien_formado s"
  then show ?thesis
    unfolding darSalidaProducto_Some [OF Some] Let_def
    by (simp add: emitir_bien_formado publicar_ventas_bien_formado bien_formado_productos)
qed

lemma descontarInventario_extiende: "extiende s (snd (descontarInventario bus xs s))"
proof (induction xs arbitrary: s)
  case Nil
  show ?case by (simp add: extiende_refl)
next
  case (Cons x xs)
  obtain idP cant where x: "x = (idP, cant)" by (cases x)
  obtain r s1 where d: "darSalidaProducto bus idP cant s = (r, s1)" by (cases "darSalidaProducto bus idP cant s")
  have 1: "extiende s s1" using darSalidaProducto_extiende [of s bus idP cant] d by simp
  show ?case
  proof (cases r)
    case (Inl e)
    then show ?thesis using x d 1 by simp
  next
    case (Inr u)
    then show ?thesis using x d extiende_trans [OF 1 Cons.IH [of s1]] by simp
  qed
qed

lemma descontarInventario_bien_formado:
  "bien_formado s \<Longrightarrow> bien_formado (snd (descontarInventario bus xs s))"
proof (induction xs arbitrary: s)
  case Nil
  then show ?case by simp
next
  case (Cons x xs)
  obtain idP cant where x: "x = (idP, cant)" by (cases x)
  obtain r s1 where d: "darSalidaProducto bus idP cant s = (r, s1)" by (cases "darSalidaProducto bus idP cant s")
  have 1: "bien_formado s1" using darSalidaProducto_bien_formado [OF Cons.prems, of bus idP cant] d by simp
  show ?case
  proof (cases r)
    case (Inl e)
    then show ?thesis using x d 1 by simp
  next
    case (Inr u)
    then show ?thesis using x d Cons.IH [OF 1] by simp
  qed
qed




lemma calcularTotal_extiende: "extiende s (snd (calcularTotal k s))"
  by (auto simp: calcularTotal_def extiende_def Let_def split: option.splits)


lemma calcularTotal_logger: "logger (snd (calcularTotal k s)) = logger s"
  by (simp add: calcularTotal_def Let_def split: option.splits)

lemma calcularTotal_lineas: "lineas_carrito (snd (calcularTotal k s)) j = lineas_carrito s j"
  by (simp add: calcularTotal_def lineas_carrito_def Let_def split: option.splits)

lemma calcularTotal_listas: "listas (snd (calcularTotal k s)) = listas s"
  by (simp add: calcularTotal_def Let_def split: option.splits)

lemma calcularTotal_bien_formado: "bien_formado s \<Longrightarrow> bien_formado (snd (calcularTotal k s))"
  by (erule bien_formado_carritos)
     (fastforce simp: calcularTotal_def Let_def split: option.splits if_splits)+

lemma crearFactura_eq:
  "crearFactura idCl idCa t s =
     (let f = \<lparr>idFactura = seq_factura s,
               cliente = (case clientes s idCl of None \<Rightarrow> cliente_por_defecto idCl | Some r \<Rightarrow> r),
               fa_productos = sig_dir s, fa_total = t\<rparr>
      in (f, s\<lparr>seq_factura := seq_factura s + 1,
              listas := (listas s)(sig_dir s := lineas_carrito s idCa),
              sig_dir := Suc (sig_dir s),
              facturas := (facturas s)(seq_factura s \<mapsto> f)\<rparr>))"
  by (simp add: crearFactura_def nueva_lista_def Let_def lineas_carrito_def split: option.splits)

lemma crearFactura_bien_formado:
  assumes bf: "bien_formado s"
  shows "bien_formado (snd (crearFactura idCl idCa t s))"
  unfolding crearFactura_eq Let_def snd_conv
proof (rule bien_formadoI, goal_cases)
  case (1 k c)
  then show ?case using bien_formado_carrito [OF bf, of k c] by simp
next
  case (2 i f)
  then show ?case using bien_formado_factura [OF bf, of i f] by (auto split: if_splits)
next
  case (3 i f)
  then show ?case using bien_formado_clave [OF bf, of i f] by (auto split: if_splits)
next
  case (4 k c i f)
  then show ?case
    using bien_formado_carrito [OF bf, of k c] bien_formado_disjunto [OF bf, of k c i f]
    by (auto split: if_splits)
qed

lemma facturas_intactas_refl: "facturas_intactas s s"
  by (simp add: facturas_intactas_def)

lemma facturas_intactas_trans:
  "facturas_intactas a b \<Longrightarrow> facturas_intactas b c \<Longrightarrow> facturas_intactas a c"
  unfolding facturas_intactas_def by fastforce

lemma extiende_facturas_intactas:
  "bien_formado s \<Longrightarrow> extiende s s' \<Longrightarrow> facturas_intactas s s'"
  unfolding facturas_intactas_def extiende_def
  using bien_formado_factura by fastforce

lemma crearFactura_facturas_intactas:
  assumes bf: "bien_formado s"
  shows "facturas_intactas s (snd (crearFactura idCl idCa t s))"
  unfolding crearFactura_eq Let_def snd_conv facturas_intactas_def
proof (intro allI impI)
  fix i f assume f: "facturas s i = Some f"
  have "i \<noteq> seq_factura s" using bien_formado_clave [OF bf f] by simp
  moreover have "fa_productos f \<noteq> sig_dir s" using bien_formado_factura [OF bf f] by simp
  ultimately show "facturas (s\<lparr>seq_factura := seq_factura s + 1,
              listas := (listas s)(sig_dir s := lineas_carrito s idCa),
              sig_dir := Suc (sig_dir s),
              facturas := (facturas s)(seq_factura s \<mapsto> \<lparr>idFactura = seq_factura s,
               cliente = (case clientes s idCl of None \<Rightarrow> cliente_por_defecto idCl | Some r \<Rightarrow> r),
               fa_productos = sig_dir s, fa_total = t\<rparr>)\<rparr>) i = Some f \<and>
        listas (s\<lparr>seq_factura := seq_factura s + 1,
              listas := (listas s)(sig_dir s := lineas_carrito s idCa),
              sig_dir := Suc (sig_dir s),
              facturas := (facturas s)(seq_factura s \<mapsto> \<lparr>idFactura = seq_factura s,
               cliente = (case clientes s idCl of None \<Rightarrow> cliente_por_defecto idCl | Some r \<Rightarrow> r),
               fa_productos = sig_dir s, fa_total = t\<rparr>)\<rparr>) (fa_productos f) = listas s (fa_productos f)"
    using f by simp
qed

lemma vaciarCarrito_bien_formado: "bien_formado s \<Longrightarrow> bien_formado (vaciarCarrito k s)"
  by (erule bien_formado_carritos)
     (fastforce simp: vaciarCarrito_def split: option.splits if_splits)+

lemma vaciarCarrito_facturas_intactas:
  assumes bf: "bien_formado s"
  shows "facturas_intactas s (vaciarCarrito k s)"
proof (cases "carritos s k")
  case None
  then show ?thesis by (simp add: vaciarCarrito_def facturas_intactas_refl)
next
  case (Some c)
  show ?thesis
    unfolding facturas_intactas_def
    using Some bien_formado_disjunto [OF bf Some]
    by (fastforce simp: vaciarCarrito_def)
qed

lemma vaciarCarrito_lineas:
  "carritos s k = Some c \<Longrightarrow>
   carritos (vaciarCarrito k s) k = Some (c\<lparr>ca_total := 0\<rparr>) \<and>
   listas (vaciarCarrito k s) (ca_productos c) = []"
  by (simp add: vaciarCarrito_def)

lemma registrarIngreso_bien_formado: "bien_formado (registrarIngreso f s) = bien_formado s"
  by (simp add: bien_formado_def registrarIngreso_def)

lemma registrarIngreso_facturas_intactas: "facturas_intactas s (registrarIngreso f s)"
  by (simp add: facturas_intactas_def registrarIngreso_def)

text \<open>\<open>verificar\<close> with the pairs taken apart.\<close>

lemma verificar_eq:
  "verificar bus idCl idCa s =
     (if carritos s idCa = None \<or> lineas_carrito s idCa = [] then
        (Inl (ValueError ''Carrito vacio o inexistente''), s)
      else
        (let r = descontarInventario bus (lineas_carrito s idCa) (snd (calcularTotal idCa s)) in
         case fst r of
           Inl e \<Rightarrow> (Inl e, snd r)
         | Inr u \<Rightarrow>
             (let cf = crearFactura idCl idCa (fst (calcularTotal idCa s)) (snd r) in
              (Inr (fst cf),
               vaciarCarrito idCa
                 (emitir bus ''orden_completada''
                    \<lparr>d_idProducto = 0,
                     d_evento = ''Orden #'' @ str_int (idFactura (fst cf)) @ '' completada''\<rparr>
                    (registrarIngreso (fst cf) (snd cf)))))))"
proof (cases "carritos s idCa")
  case None
  then show ?thesis by (simp add: verificar_def)
next
  case (Some c)
  have l: "lineas_carrito s idCa = listas s (ca_productos c)"
    using Some by (simp add: lineas_carrito_def)
  show ?thesis
  proof (cases "listas s (ca_productos c) = []")
    case True
    then show ?thesis using Some l by (simp add: verificar_def)
  next
    case False
    then have "lineas_carrito s idCa \<noteq> []" using l by simp
    then show ?thesis
      using Some False
      by (simp add: verificar_def case_prod_unfold procesarPago_def calcularTotal_lineas Let_def
          split: sum.splits)
  qed
qed

text \<open>A successful checkout, step by step.\<close>

lemma verificar_Inr:
  assumes "verificar bus idCl idCa s = (Inr f, s')"
  obtains c s2 s3 where
    "carritos s idCa = Some c" "listas s (ca_productos c) \<noteq> []"
    "descontarInventario bus (lineas_carrito s idCa) (snd (calcularTotal idCa s)) = (Inr (), s2)"
    "crearFactura idCl idCa (fst (calcularTotal idCa s)) s2 = (f, s3)"
    "s' = vaciarCarrito idCa
            (emitir bus ''orden_completada''
               \<lparr>d_idProducto = 0, d_evento = ''Orden #'' @ str_int (idFactura f) @ '' completada''\<rparr>
               (registrarIngreso f s3))"
proof -
  let ?r = "descontarInventario bus (lineas_carrito s idCa) (snd (calcularTotal idCa s))"
  let ?cf = "crearFactura idCl idCa (fst (calcularTotal idCa s)) (snd ?r)"
  from assms obtain c where c: "carritos s idCa = Some c" "listas s (ca_productos c) \<noteq> []"
    by (auto simp: verificar_eq lineas_carrito_def split: if_splits option.splits)
  from assms have r: "fst ?r = Inr ()"
    by (auto simp: verificar_eq Let_def split: if_splits sum.splits)
  then have 1: "?r = (Inr (), snd ?r)" by (metis prod.collapse)
  from assms r have f: "f = fst ?cf" and s': "s' = vaciarCarrito idCa
            (emitir bus ''orden_completada''
               \<lparr>d_idProducto = 0, d_evento = ''Orden #'' @ str_int (idFactura f) @ '' completada''\<rparr>
               (registrarIngreso f (snd ?cf)))"
    by (auto simp: verificar_eq Let_def split: if_splits)
  have 2: "?cf = (f, snd ?cf)" using f by simp
  show thesis using that [OF c 1 2 s'] .
qed

text \<open>A checkout that raises stops before the invoice is created.\<close>

lemma verificar_Inl:
  assumes "verificar bus idCl idCa s = (Inl e, s')"
  shows "extiende s s' \<and> (bien_formado s \<longrightarrow> bien_formado s')"
proof (cases "carritos s idCa = None \<or> lineas_carrito s idCa = []")
  case True
  then have "s' = s" using assms by (simp add: verificar_eq)
  then show ?thesis by (simp add: extiende_refl)
next
  case False
  then have "s' = snd (descontarInventario bus (lineas_carrito s idCa) (snd (calcularTotal idCa s)))"
    using assms by (auto simp: verificar_eq Let_def split: sum.splits)
  then show ?thesis
    using extiende_trans [OF calcularTotal_extiende descontarInventario_extiende]
      descontarInventario_bien_formado [OF calcularTotal_bien_formado]
    by simp
qed


section \<open>The bus\<close>



lemma manejadores_suscribir:
  "manejadores (suscribir n h bus) m = (if m = n then manejadores bus n @ [h] else manejadores bus m)"
  by (simp add: manejadores_def suscribir_def)

lemma manejadores_bus_vacio: "manejadores bus_vacio n = []"
  by (simp add: manejadores_def bus_vacio_def)

lemma manejadores_bus_demo:
  "manejadores bus_demo ''venta_realizada'' =
     [ObservadorCarrito, ObservadorContabilidad, ObservadorAuditoria, ObservadorNotificacion]"
  "manejadores bus_demo ''producto_actualizado'' =
     [ObservadorCarrito, ObservadorAuditoria, ObservadorNotificacion]"
  "manejadores bus_demo ''orden_completada'' = [ObservadorAuditoria]"
  by (simp_all add: bus_demo_def manejadores_suscribir manejadores_bus_vacio)

lemma publicar_ventas_numeral:
  "publicar_ventas bus (numeral k) idP s =
     publicar_ventas bus (pred_numeral k) idP
       (emitir bus ''venta_realizada'' \<lparr>d_idProducto = idP, d_evento = ''Venta realizada''\<rparr> s)"
  by (simp add: numeral_eq_Suc)

section \<open>Operations and runs\<close>

lemma facturas_intactas_iguales:
  "facturas s' = facturas s \<Longrightarrow> listas s' = listas s \<Longrightarrow> facturas_intactas s s'"
  by (simp add: facturas_intactas_def)

lemma bien_formado_iguales:
  "bien_formado s \<Longrightarrow> facturas s' = facturas s \<Longrightarrow> carritos s' = carritos s \<Longrightarrow>
   seq_factura s' = seq_factura s \<Longrightarrow> sig_dir s' = sig_dir s \<Longrightarrow> bien_formado s'"
  by (simp add: bien_formado_def)

lemma clientes_setdefault_bien_formado:
  "bien_formado s \<Longrightarrow> bien_formado (clientes_setdefault k s)"
  by (erule bien_formado_iguales) (simp_all add: clientes_setdefault_def split: option.splits)

lemma clientes_setdefault_facturas_intactas: "facturas_intactas s (clientes_setdefault k s)"
  by (rule facturas_intactas_iguales) (simp_all add: clientes_setdefault_def split: option.splits)

lemma carrito_setdefault_bien_formado:
  "bien_formado s \<Longrightarrow> bien_formado (snd (carrito_setdefault k s))"
  by (erule bien_formado_carritos)
     (fastforce simp: carrito_setdefault_def nueva_lista_def Let_def split: option.splits if_splits)+

lemma carrito_setdefault_facturas_intactas:
  assumes bf: "bien_formado s"
  shows "facturas_intactas s (snd (carrito_setdefault k s))"
  unfolding facturas_intactas_def
  using bien_formado_factura [OF bf]
  by (fastforce simp: carrito_setdefault_def nueva_lista_def Let_def split: option.splits)

lemma carrito_setdefault_fst:
  "carritos (snd (carrito_setdefault k s)) k = Some (fst (carrito_setdefault k s))"
  by (simp add: carrito_setdefault_def nueva_lista_def Let_def split: option.splits)

lemma carrito_setdefault_lineas:
  "lineas_carrito (snd (carrito_setdefault k s)) k = lineas_carrito s k"
  by (simp add: carrito_setdefault_def nueva_lista_def lineas_carrito_def Let_def split: option.splits)

text \<open>Writing to the list of a stored cart leaves the invoices alone.\<close>

lemma escribir_lista_bien_formado:
  "bien_formado (s\<lparr>listas := ls\<rparr>) = bien_formado s"
  by (simp add: bien_formado_def)

lemma escribir_lista_facturas_intactas:
  assumes bf: "bien_formado s" and c: "carritos s k = Some c"
  shows "facturas_intactas s (s\<lparr>listas := (listas s)(ca_productos c := xs)\<rparr>)"
  unfolding facturas_intactas_def
  using bien_formado_disjunto [OF bf c] by fastforce

lemma logger_bien_formado: "bien_formado (s\<lparr>logger := l\<rparr>) = bien_formado s"
  by (simp add: bien_formado_def)

lemma logger_facturas_intactas: "facturas_intactas s (s\<lparr>logger := l\<rparr>)"
  by (simp add: facturas_intactas_def)

lemma calcularTotal_facturas_intactas: "facturas_intactas s (snd (calcularTotal k s))"
  by (rule facturas_intactas_iguales) (simp_all add: calcularTotal_def Let_def split: option.splits)

lemma agregarAlCarrito_eq:
  "snd (agregarAlCarrito idCl idP cantidad s) =
    (let s1 = snd (carrito_setdefault idCl (clientes_setdefault idCl s));
         c = fst (carrito_setdefault idCl (clientes_setdefault idCl s)) in
     case productos s1 idP of
       None \<Rightarrow> s1\<lparr>logger := logger s1 @ [Error ''Producto no encontrado'']\<rparr>
     | Some fila \<Rightarrow>
         if stock fila < cantidad then s1\<lparr>logger := logger s1 @ [Error ''Stock insuficiente'']\<rparr>
         else snd (calcularTotal idCl
                (s1\<lparr>listas := (listas s1)(ca_productos c := listas s1 (ca_productos c) @ [(idP, cantidad)])\<rparr>)))"
  by (simp add: agregarAlCarrito_def case_prod_unfold Let_def split: option.splits)

lemma agregarAlCarrito_bien_formado:
  assumes "bien_formado s"
  shows "bien_formado (snd (agregarAlCarrito idCl idP cantidad s))"
proof -
  have "bien_formado (snd (carrito_setdefault idCl (clientes_setdefault idCl s)))"
    using assms by (simp add: carrito_setdefault_bien_formado clientes_setdefault_bien_formado)
  then show ?thesis
    by (simp add: agregarAlCarrito_eq Let_def logger_bien_formado calcularTotal_bien_formado
        escribir_lista_bien_formado split: option.splits)
qed

lemma agregarAlCarrito_facturas_intactas:
  assumes bf: "bien_formado s"
  shows "facturas_intactas s (snd (agregarAlCarrito idCl idP cantidad s))"
proof -
  let ?s0 = "clientes_setdefault idCl s"
  let ?s1 = "snd (carrito_setdefault idCl ?s0)"
  let ?c = "fst (carrito_setdefault idCl ?s0)"
  have bf0: "bien_formado ?s0" using bf by (rule clientes_setdefault_bien_formado)
  have bf1: "bien_formado ?s1" using bf0 by (rule carrito_setdefault_bien_formado)
  have i1: "facturas_intactas s ?s1"
    by (rule facturas_intactas_trans [OF clientes_setdefault_facturas_intactas
          carrito_setdefault_facturas_intactas [OF bf0]])
  have i2: "facturas_intactas ?s1 (?s1\<lparr>logger := l\<rparr>)" for l
    by (rule logger_facturas_intactas)
  have i3: "facturas_intactas ?s1
      (snd (calcularTotal idCl (?s1\<lparr>listas := (listas ?s1)(ca_productos ?c := xs)\<rparr>)))" for xs
    by (rule facturas_intactas_trans
          [OF escribir_lista_facturas_intactas [OF bf1 carrito_setdefault_fst]
              calcularTotal_facturas_intactas])
  show ?thesis
    unfolding agregarAlCarrito_eq Let_def
    by (auto split: option.splits intro: facturas_intactas_trans [OF i1 i2]
        facturas_intactas_trans [OF i1 i3])
qed

lemma agregarAlCarrito_seq:
  "seq_factura (snd (agregarAlCarrito idCl idP cantidad s)) = seq_factura s"
  by (simp add: agregarAlCarrito_eq Let_def carrito_setdefault_def clientes_setdefault_def
      nueva_lista_def calcularTotal_def split: option.splits)

lemma guardar_bien_formado: "bien_formado (guardar dto s) = bien_formado s"
  by (simp add: guardar_def bien_formado_def)

lemma ingresarProducto_bien_formado:
  "bien_formado s \<Longrightarrow> bien_formado (ingresarProducto bus dto s)"
  by (simp add: ingresarProducto_def emitir_bien_formado guardar_bien_formado)

lemma ingresarProducto_facturas_intactas:
  assumes "bien_formado s"
  shows "facturas_intactas s (ingresarProducto bus dto s)"
proof -
  have 1: "facturas_intactas s (guardar dto s)"
    by (rule facturas_intactas_iguales) (simp_all add: guardar_def)
  have 2: "facturas_intactas (guardar dto s) (ingresarProducto bus dto s)"
    unfolding ingresarProducto_def
    by (rule extiende_facturas_intactas [OF _ emitir_extiende]) (simp add: guardar_bien_formado assms)
  show ?thesis by (rule facturas_intactas_trans [OF 1 2])
qed

lemma extiende_seq: "extiende s s' \<Longrightarrow> seq_factura s' = seq_factura s"
  by (simp add: extiende_def)

lemma ingresarProducto_seq: "seq_factura (ingresarProducto bus dto s) = seq_factura s"
  by (simp add: ingresarProducto_def extiende_seq [OF emitir_extiende] guardar_def)

lemma actualizarInventario_extiende: "extiende s (snd (actualizarInventario idP n s))"
  by (auto simp: actualizarInventario_def extiende_def split: option.splits)

lemma actualizarInventario_bien_formado:
  "bien_formado s \<Longrightarrow> bien_formado (snd (actualizarInventario idP n s))"
  by (simp add: actualizarInventario_def bien_formado_productos split: option.splits)

text \<open>What a successful checkout does to the invoices and to the counter.\<close>

lemma verificar_Inr_facturas:
  assumes v: "verificar bus idCl idCa s = (Inr f, s')"
  shows "idFactura f = seq_factura s \<and> seq_factura s' = seq_factura s + 1 \<and>
         facturas s' = (facturas s)(seq_factura s \<mapsto> f)"
proof -
  from v obtain c s2 s3 where
    d: "descontarInventario bus (lineas_carrito s idCa) (snd (calcularTotal idCa s)) = (Inr (), s2)"
    and cf: "crearFactura idCl idCa (fst (calcularTotal idCa s)) s2 = (f, s3)"
    and s': "s' = vaciarCarrito idCa
            (emitir bus ''orden_completada''
               \<lparr>d_idProducto = 0, d_evento = ''Orden #'' @ str_int (idFactura f) @ '' completada''\<rparr>
               (registrarIngreso f s3))"
    by (rule verificar_Inr)
  have "extiende s (snd (descontarInventario bus (lineas_carrito s idCa) (snd (calcularTotal idCa s))))"
    by (rule extiende_trans [OF calcularTotal_extiende descontarInventario_extiende])
  then have e2: "extiende s s2" using d by simp
  have f: "idFactura f = seq_factura s2" "seq_factura s3 = seq_factura s2 + 1"
    "facturas s3 = (facturas s2)(seq_factura s2 \<mapsto> f)"
    using cf by (auto simp: crearFactura_eq Let_def)
  let ?s4 = "registrarIngreso f s3"
  let ?s5 = "emitir bus ''orden_completada''
               \<lparr>d_idProducto = 0, d_evento = ''Orden #'' @ str_int (idFactura f) @ '' completada''\<rparr> ?s4"
  have e5: "extiende ?s4 ?s5" by (rule emitir_extiende)
  have "seq_factura s' = seq_factura ?s5" "facturas s' = facturas ?s5"
    unfolding s' by (simp_all add: vaciarCarrito_def split: option.splits)
  then have "seq_factura s' = seq_factura s3" "facturas s' = facturas s3"
    using e5 by (simp_all add: extiende_def registrarIngreso_def)
  then show ?thesis using f e2 by (simp add: extiende_def)
qed

lemma verificar_Inr_vacia:
  assumes "verificar bus idCl idCa s = (Inr f, s')"
  shows "\<exists>c. carritos s' idCa = Some c \<and> listas s' (ca_productos c) = [] \<and> ca_total c = 0"
proof -
  from assms obtain c s2 s3 where
    c: "carritos s idCa = Some c"
    and d: "descontarInventario bus (lineas_carrito s idCa) (snd (calcularTotal idCa s)) = (Inr (), s2)"
    and cf: "crearFactura idCl idCa (fst (calcularTotal idCa s)) s2 = (f, s3)"
    and s': "s' = vaciarCarrito idCa
            (emitir bus ''orden_completada''
               \<lparr>d_idProducto = 0, d_evento = ''Orden #'' @ str_int (idFactura f) @ '' completada''\<rparr>
               (registrarIngreso f s3))"
    by (rule verificar_Inr)
  let ?s4 = "registrarIngreso f s3"
  let ?s5 = "emitir bus ''orden_completada''
               \<lparr>d_idProducto = 0, d_evento = ''Orden #'' @ str_int (idFactura f) @ '' completada''\<rparr> ?s4"
  have "extiende s (snd (descontarInventario bus (lineas_carrito s idCa) (snd (calcularTotal idCa s))))"
    by (rule extiende_trans [OF calcularTotal_extiende descontarInventario_extiende])
  then have e2: "extiende s s2" using d by simp
  have e5: "extiende ?s4 ?s5" by (rule emitir_extiende)
  have "carritos s3 = carritos s2"
    using cf by (auto simp: crearFactura_eq Let_def)
  then have "dom (carritos ?s5) = dom (carritos s)"
    using e5 e2 by (simp add: extiende_def registrarIngreso_def)
  then obtain c5 where c5: "carritos ?s5 idCa = Some c5" using c by blast
  show ?thesis
    unfolding s' using vaciarCarrito_lineas [OF c5] by simp
qed

lemma verificar_bien_formado:
  assumes bf: "bien_formado s"
  shows "bien_formado (snd (verificar bus idCl idCa s))"
proof (cases "fst (verificar bus idCl idCa s)")
  case (Inl e)
  then have "verificar bus idCl idCa s = (Inl e, snd (verificar bus idCl idCa s))"
    by (metis prod.collapse)
  from verificar_Inl [OF this] bf show ?thesis by simp
next
  case (Inr f)
  then have v: "verificar bus idCl idCa s = (Inr f, snd (verificar bus idCl idCa s))"
    by (metis prod.collapse)
  from v obtain c s2 s3 where
    d: "descontarInventario bus (lineas_carrito s idCa) (snd (calcularTotal idCa s)) = (Inr (), s2)"
    and cf: "crearFactura idCl idCa (fst (calcularTotal idCa s)) s2 = (f, s3)"
    and s': "snd (verificar bus idCl idCa s) = vaciarCarrito idCa
            (emitir bus ''orden_completada''
               \<lparr>d_idProducto = 0, d_evento = ''Orden #'' @ str_int (idFactura f) @ '' completada''\<rparr>
               (registrarIngreso f s3))"
    by (rule verificar_Inr)
  have "bien_formado (snd (descontarInventario bus (lineas_carrito s idCa) (snd (calcularTotal idCa s))))"
    by (intro descontarInventario_bien_formado calcularTotal_bien_formado bf)
  then have bf2: "bien_formado s2" using d by simp
  have "bien_formado s3"
    using crearFactura_bien_formado [OF bf2] cf by (metis snd_conv)
  then show ?thesis
    unfolding s'
    by (simp add: vaciarCarrito_bien_formado emitir_bien_formado registrarIngreso_bien_formado)
qed

lemma verificar_facturas_intactas:
  assumes bf: "bien_formado s"
  shows "facturas_intactas s (snd (verificar bus idCl idCa s))"
proof (cases "fst (verificar bus idCl idCa s)")
  case (Inl e)
  then have "verificar bus idCl idCa s = (Inl e, snd (verificar bus idCl idCa s))"
    by (metis prod.collapse)
  from verificar_Inl [OF this] bf show ?thesis by (simp add: extiende_facturas_intactas)
next
  case (Inr f)
  then have v: "verificar bus idCl idCa s = (Inr f, snd (verificar bus idCl idCa s))"
    by (metis prod.collapse)
  from v obtain c s2 s3 where
    d: "descontarInventario bus (lineas_carrito s idCa) (snd (calcularTotal idCa s)) = (Inr (), s2)"
    and cf: "crearFactura idCl idCa (fst (calcularTotal idCa s)) s2 = (f, s3)"
    and s': "snd (verificar bus idCl idCa s) = vaciarCarrito idCa
            (emitir bus ''orden_completada''
               \<lparr>d_idProducto = 0, d_evento = ''Orden #'' @ str_int (idFactura f) @ '' completada''\<rparr>
               (registrarIngreso f s3))"
    by (rule verificar_Inr)
  let ?s4 = "registrarIngreso f s3"
  let ?s5 = "emitir bus ''orden_completada''
               \<lparr>d_idProducto = 0, d_evento = ''Orden #'' @ str_int (idFactura f) @ '' completada''\<rparr> ?s4"
  have "extiende s (snd (descontarInventario bus (lineas_carrito s idCa) (snd (calcularTotal idCa s))))"
    by (rule extiende_trans [OF calcularTotal_extiende descontarInventario_extiende])
  then have e2: "extiende s s2" using d by simp
  have "bien_formado (snd (descontarInventario bus (lineas_carrito s idCa) (snd (calcularTotal idCa s))))"
    by (intro descontarInventario_bien_formado calcularTotal_bien_formado bf)
  then have bf2: "bien_formado s2" using d by simp
  have bf3: "bien_formado s3"
    using crearFactura_bien_formado [OF bf2] cf by (metis snd_conv)
  have bf4: "bien_formado ?s4" using bf3 by (simp add: registrarIngreso_bien_formado)
  have bf5: "bien_formado ?s5" using bf4 by (rule emitir_bien_formado)
  have "facturas_intactas s s2" using bf e2 by (rule extiende_facturas_intactas)
  moreover have "facturas_intactas s2 s3"
    using crearFactura_facturas_intactas [OF bf2] cf by (metis snd_conv)
  moreover have "facturas_intactas s3 ?s4" by (rule registrarIngreso_facturas_intactas)
  moreover have "facturas_intactas ?s4 ?s5"
    using bf4 emitir_extiende by (rule extiende_facturas_intactas)
  moreover have "facturas_intactas ?s5 (vaciarCarrito idCa ?s5)"
    using bf5 by (rule vaciarCarrito_facturas_intactas)
  ultimately show ?thesis
    unfolding s' by (blast intro: facturas_intactas_trans)
qed

lemma aplicar_finalizar_snd: "snd (aplicar bus (OpFinalizar c k) s) = snd (verificar bus c k s)"
  by (simp add: finalizarCompra_def split: prod.splits sum.splits)

lemma onProductoActualizado_extiende: "extiende s (onProductoActualizado k idP ev s)"
  using actualizar_extiende [of s "CarritoObservador k" "\<lparr>d_idProducto = idP, d_evento = ev\<rparr>"]
  by simp

lemma aplicar_bien_formado:
  "bien_formado s \<Longrightarrow> bien_formado (snd (aplicar bus op s))"
  by (cases op)
     (simp_all add: ingresarProducto_bien_formado agregarAlCarrito_bien_formado
        verificar_bien_formado darSalidaProducto_bien_formado actualizarInventario_bien_formado
        vaciarCarrito_bien_formado calcularTotal_bien_formado onProductoActualizado_bien_formado
        aplicar_finalizar_snd del: aplicar.simps(3))

lemma aplicar_facturas_intactas:
  "bien_formado s \<Longrightarrow> facturas_intactas s (snd (aplicar bus op s))"
  by (cases op)
     (simp_all add: ingresarProducto_facturas_intactas agregarAlCarrito_facturas_intactas
        verificar_facturas_intactas vaciarCarrito_facturas_intactas
        calcularTotal_facturas_intactas
        extiende_facturas_intactas [OF _ darSalidaProducto_extiende]
        extiende_facturas_intactas [OF _ actualizarInventario_extiende]
        extiende_facturas_intactas [OF _ onProductoActualizado_extiende]
        aplicar_finalizar_snd del: aplicar.simps(3))

lemma correr_bien_formado: "bien_formado s \<Longrightarrow> bien_formado (correr bus ops s)"
  by (induction ops arbitrary: s) (simp_all add: aplicar_bien_formado)

lemma correr_facturas_intactas:
  "bien_formado s \<Longrightarrow> facturas_intactas s (correr bus ops s)"
proof (induction ops arbitrary: s)
  case Nil
  show ?case by (simp add: facturas_intactas_refl)
next
  case (Cons op ops)
  show ?case
    using facturas_intactas_trans [OF aplicar_facturas_intactas [OF Cons.prems]
        Cons.IH [OF aplicar_bien_formado [OF Cons.prems]]]
    by simp
qed

lemma bien_formado_inicial: "bien_formado inicial"
  by (simp add: bien_formado_def inicial_def)

text \<open>Every state a run reaches from the initial state is well-formed.\<close>

lemma alcanzable_bien_formado: "bien_formado (correr bus ops inicial)"
  by (rule correr_bien_formado [OF bien_formado_inicial])

text \<open>The counter moves only when an invoice is returned.\<close>

lemma aplicar_seq:
  "(case fst (aplicar bus op s) of
      None \<Rightarrow> seq_factura (snd (aplicar bus op s)) = seq_factura s
    | Some f \<Rightarrow> idFactura f = seq_factura s \<and>
                seq_factura (snd (aplicar bus op s)) = seq_factura s + 1 \<and>
                facturas (snd (aplicar bus op s)) (seq_factura s) = Some f)"
proof (cases op)
  case (OpFinalizar c k)
  show ?thesis
  proof (cases "fst (verificar bus c k s)")
    case (Inl e)
    then have "verificar bus c k s = (Inl e, snd (verificar bus c k s))"
      by (metis prod.collapse)
    then show ?thesis
      using verificar_Inl [of bus c k s e] OpFinalizar
      by (auto simp: finalizarCompra_def extiende_seq split: prod.splits)
  next
    case (Inr f)
    then have v: "verificar bus c k s = (Inr f, snd (verificar bus c k s))"
      by (metis prod.collapse)
    show ?thesis
      using verificar_Inr_facturas [OF v] v OpFinalizar
      by (auto simp: finalizarCompra_def split: prod.splits)
  qed
next
  case (OpDarSalida p n)
  then show ?thesis using darSalidaProducto_extiende [of s bus p n] by (simp add: extiende_seq)
next
  case (OpActualizarInventario p n)
  then show ?thesis using actualizarInventario_extiende [of s p n] by (simp add: extiende_seq)
next
  case (OpCalcularTotal k)
  then show ?thesis by (simp add: extiende_seq [OF calcularTotal_extiende])
next
  case (OpActualizarCarrito k p ev)
  then show ?thesis
    using actualizar_extiende [of s "CarritoObservador k" "\<lparr>d_idProducto = p, d_evento = ev\<rparr>"]
    by (simp add: extiende_seq)
qed (simp_all add: ingresarProducto_seq agregarAlCarrito_seq vaciarCarrito_def split: option.splits)

lemma facturas_emitidas_desde:
  assumes "bien_formado s"
  shows "map idFactura (facturas_emitidas bus ops s) =
           [seq_factura s .. seq_factura s + int (length (facturas_emitidas bus ops s)) - 1] \<and>
         (\<forall>f \<in> set (facturas_emitidas bus ops s). facturas (correr bus ops s) (idFactura f) = Some f)"
  using assms
proof (induction ops arbitrary: s)
  case Nil
  show ?case by simp
next
  case (Cons op ops)
  obtain r s1 where a: "aplicar bus op s = (r, s1)" by (cases "aplicar bus op s")
  have bf1: "bien_formado s1" using aplicar_bien_formado [OF Cons.prems, of bus op] a by simp
  note IH = Cons.IH [OF bf1]
  show ?case
  proof (cases r)
    case None
    have "seq_factura s1 = seq_factura s" using aplicar_seq [of bus op s] a None by simp
    then show ?thesis using IH a None by simp
  next
    case (Some f)
    have q: "idFactura f = seq_factura s" "seq_factura s1 = seq_factura s + 1"
      "facturas s1 (seq_factura s) = Some f"
      using aplicar_seq [of bus op s] a Some by simp_all
    have "facturas_intactas s1 (correr bus ops s1)"
      using bf1 by (rule correr_facturas_intactas)
    then have st: "facturas (correr bus ops s1) (idFactura f) = Some f"
      using q by (simp add: facturas_intactas_def)
    have "[seq_factura s .. seq_factura s + int (length (f # facturas_emitidas bus ops s1)) - 1] =
          seq_factura s # [seq_factura s + 1 .. seq_factura s + 1 + int (length (facturas_emitidas bus ops s1)) - 1]"
      by (subst upto_rec1) (simp_all add: algebra_simps)
    then show ?thesis using IH a q st Some by simp
  qed
qed

section \<open>Evaluation of closed terms\<close>

lemmas evaluar =
  inicial_def Let_def nueva_lista_def lineas_carrito_def lineas_factura_def
  publicar_def info_publicando_def manejadores_bus_demo publicar_ventas_numeral
  onProductoActualizado_def calcularTotal_def vaciarCarrito_def obtenerPorId_def guardar_def
  actualizarInventario_def ingresarProducto_def consultarInventario_def darSalidaProducto_def
  registrarIngreso_def procesarPago_def cliente_por_defecto_def crearFactura_def verificar_def
  carrito_setdefault_def clientes_setdefault_def agregarAlCarrito_def finalizarCompra_def
  zapatilla_deportiva_def zapatilla_casual_def zapatilla_urbana_def

lemma str_int_ejemplos: "str_int 1 = ''1''" "str_int 7 = ''7''"
  by (simp_all add: str_int_def str_nat.simps digito_def)

lemma demo_eq: "demo_antes_de_pagar =
  \<lparr>productos =
     [101 \<mapsto> \<lparr>idProducto = 101, nombre = ''Zapatilla Deportiva'',
                descripcion = ''Running pro'', precio = 120000, stock = 10\<rparr>,
      102 \<mapsto> \<lparr>idProducto = 102, nombre = ''Zapatilla Casual'',
                descripcion = ''Daily'', precio = 95000, stock = 5\<rparr>,
      103 \<mapsto> \<lparr>idProducto = 103, nombre = ''Zapatilla Urbana'',
                descripcion = ''Street'', precio = 130000, stock = 2\<rparr>],
   clientes = [1 \<mapsto> \<lparr>idCliente = 1, cl_nombre = ''Cliente 1'', direccion = ''-'', telefono = ''-''\<rparr>],
   carritos = [1 \<mapsto> \<lparr>idCarrito = 1, ca_productos = 0, ca_total = 335000\<rparr>],
   facturas = Map.empty, seq_factura = 1,
   listas = (\<lambda>_. [])(0 := [(101, 2), (102, 1)]), sig_dir = Suc 0,
   ingresos = 0, egresos = 0, ingresos_acumulados = 0,
   historial = [(101, ''Ingreso a inventario''), (102, ''Ingreso a inventario''),
                (103, ''Ingreso a inventario'')],
   logger = [Publicando ''producto_actualizado'' \<lparr>d_idProducto = 101, d_evento = ''Ingreso a inventario''\<rparr>,
             Publicando ''producto_actualizado'' \<lparr>d_idProducto = 102, d_evento = ''Ingreso a inventario''\<rparr>,
             Publicando ''producto_actualizado'' \<lparr>d_idProducto = 103, d_evento = ''Ingreso a inventario''\<rparr>]\<rparr>"
  by (simp add: demo_antes_de_pagar_def evaluar str_int_ejemplos)

lemma demo_verificar:
  "verificar bus_demo 1 1 demo_antes_de_pagar =
   (Inr \<lparr>idFactura = 1,
          cliente = \<lparr>idCliente = 1, cl_nombre = ''Cliente 1'', direccion = ''-'', telefono = ''-''\<rparr>,
          fa_productos = Suc 0, fa_total = 335000\<rparr>,
    \<lparr>productos =
       [103 \<mapsto> \<lparr>idProducto = 103, nombre = ''Zapatilla Urbana'',
                  descripcion = ''Street'', precio = 130000, stock = 2\<rparr>,
        101 \<mapsto> \<lparr>idProducto = 101, nombre = ''Zapatilla Deportiva'',
                  descripcion = ''Running pro'', precio = 120000, stock = 8\<rparr>,
        102 \<mapsto> \<lparr>idProducto = 102, nombre = ''Zapatilla Casual'',
                  descripcion = ''Daily'', precio = 95000, stock = 4\<rparr>],
     clientes = [1 \<mapsto> \<lparr>idCliente = 1, cl_nombre = ''Cliente 1'', direccion = ''-'', telefono = ''-''\<rparr>],
     carritos = [1 \<mapsto> \<lparr>idCarrito = 1, ca_productos = 0, ca_total = 0\<rparr>],
     facturas =
       [1 \<mapsto> \<lparr>idFactura = 1,
                cliente = \<lparr>idCliente = 1, cl_nombre = ''Cliente 1'', direccion = ''-'', telefono = ''-''\<rparr>,
                fa_productos = Suc 0, fa_total = 335000\<rparr>],
     seq_factura = 2,
     listas = (\<lambda>_. [])(Suc 0 := [(101, 2), (102, 1)], 0 := []),
     sig_dir = Suc (Suc 0), ingresos = 335000, egresos = 0, ingresos_acumulados = 335000,
     historial =
       [(101, ''Ingreso a inventario''), (102, ''Ingreso a inventario''),
        (103, ''Ingreso a inventario''), (101, ''Venta realizada''),
        (101, ''Venta realizada''), (102, ''Venta realizada''), (0, ''Orden #1 completada'')],
     logger =
       [Publicando ''producto_actualizado'' \<lparr>d_idProducto = 101, d_evento = ''Ingreso a inventario''\<rparr>,
        Publicando ''producto_actualizado'' \<lparr>d_idProducto = 102, d_evento = ''Ingreso a inventario''\<rparr>,
        Publicando ''producto_actualizado'' \<lparr>d_idProducto = 103, d_evento = ''Ingreso a inventario''\<rparr>,
        Publicando ''venta_realizada'' \<lparr>d_idProducto = 101, d_evento = ''Venta realizada''\<rparr>,
        Publicando ''venta_realizada'' \<lparr>d_idProducto = 101, d_evento = ''Venta realizada''\<rparr>,
        Publicando ''venta_realizada'' \<lparr>d_idProducto = 102, d_evento = ''Venta realizada''\<rparr>,
        Publicando ''orden_completada'' \<lparr>d_idProducto = 0, d_evento = ''Orden #1 completada''\<rparr>]\<rparr>)"
  by (simp add: demo_eq evaluar str_int_ejemplos)

lemma bien_formado_demo: "bien_formado demo_antes_de_pagar"
  unfolding demo_antes_de_pagar_def by (rule correr_bien_formado [OF bien_formado_inicial])

lemma emitidas_ejemplo:
  "map idFactura (facturas_emitidas bus_demo
      [OpIngresar zapatilla_casual, OpAgregar 1 102 1, OpFinalizar 1 1, OpFinalizar 1 1,
       OpAgregar 1 102 2, OpFinalizar 1 1] inicial) = [1, 2]"
  by (simp add: evaluar str_int_ejemplos)

section \<open>The properties of the specification\<close>

text \<open>
  C1. The specification wants no product to have a negative stock after a successful
  checkout, whatever add-to-cart calls came before. The code does not keep this:
  \<open>agregarAlCarrito\<close> compares each new line with the stock of that moment only, and nothing
  checks again at checkout. With a stock of 5, two accepted lines of 3 units lead to a
  successful checkout that leaves the stock at -1.
\<close>

theorem stock_negativo_tras_compra:
  "\<exists>f s'. finalizarCompra bus_demo 1 1
            (correr bus_demo [OpIngresar zapatilla_casual, OpAgregar 1 102 3, OpAgregar 1 102 3] inicial)
          = (Inr f, s') \<and>
          lineas_factura s' f = [(102, 3), (102, 3)] \<and>
          map_option stock (productos s' 102) = Some (- 1)"
  by (simp add: evaluar)

text \<open>
  C2. When the cart is absent from the store, or its list of line items is empty,
  \<open>verificar\<close> raises the \<^verbatim>\<open>ValueError\<close> of the empty or missing cart (the specification's
  InvalidState) and the state is the one it was called in: no invoice, the same counter,
  the same accounting totals and the same stock.
\<close>

theorem verificar_carrito_vacio:
  assumes "carritos s idCa = None \<or> (\<exists>c. carritos s idCa = Some c \<and> listas s (ca_productos c) = [])"
  shows "verificar bus idCl idCa s = (Inl (ValueError ''Carrito vacio o inexistente''), s)"
  using assms by (auto simp: verificar_def)

theorem verificar_carrito_vacio_witness:
  "verificar bus_demo 1 1 inicial = (Inl (ValueError ''Carrito vacio o inexistente''), inicial) \<and>
   carritos inicial 1 = None \<and>
   verificar bus_demo 1 1 (snd (agregarAlCarrito 1 999 1 inicial)) =
     (Inl (ValueError ''Carrito vacio o inexistente''), snd (agregarAlCarrito 1 999 1 inicial)) \<and>
   map_option ca_productos (carritos (snd (agregarAlCarrito 1 999 1 inicial)) 1) = Some 0 \<and>
   listas (snd (agregarAlCarrito 1 999 1 inicial)) 0 = []"
proof -
  have a: "carritos inicial 1 = None" by (simp add: inicial_def)
  have b: "\<exists>c. carritos (snd (agregarAlCarrito 1 999 1 inicial)) 1 = Some c \<and>
             listas (snd (agregarAlCarrito 1 999 1 inicial)) (ca_productos c) = []"
    by (simp add: evaluar)
  show ?thesis
    using verificar_carrito_vacio [of inicial 1 bus_demo 1]
      verificar_carrito_vacio [of "snd (agregarAlCarrito 1 999 1 inicial)" 1 bus_demo 1] a b
    by (simp add: evaluar)
qed

text \<open>
  C3. In every run that starts in the initial state, the invoices returned by the
  successful checkouts carry, in order, the ids 1, 2, 3, ... up to their number, and at
  the end of the run each of them is stored in \<open>facturas\<close> under its id.
\<close>

theorem ids_de_factura_consecutivos:
  "map idFactura (facturas_emitidas bus ops inicial) =
     [1 .. int (length (facturas_emitidas bus ops inicial))] \<and>
   (\<forall>f \<in> set (facturas_emitidas bus ops inicial).
      facturas (correr bus ops inicial) (idFactura f) = Some f)"
  using facturas_emitidas_desde [OF bien_formado_inicial, of bus ops]
  by (simp add: inicial_def)

theorem ids_de_factura_consecutivos_witness:
  "\<exists>f1 f2.
     facturas_emitidas bus_demo
       [OpIngresar zapatilla_casual, OpAgregar 1 102 1, OpFinalizar 1 1, OpFinalizar 1 1,
        OpAgregar 1 102 2, OpFinalizar 1 1] inicial = [f1, f2] \<and>
     idFactura f1 = 1 \<and> idFactura f2 = 2 \<and>
     facturas (correr bus_demo
       [OpIngresar zapatilla_casual, OpAgregar 1 102 1, OpFinalizar 1 1, OpFinalizar 1 1,
        OpAgregar 1 102 2, OpFinalizar 1 1] inicial) 1 = Some f1 \<and>
     facturas (correr bus_demo
       [OpIngresar zapatilla_casual, OpAgregar 1 102 1, OpFinalizar 1 1, OpFinalizar 1 1,
        OpAgregar 1 102 2, OpFinalizar 1 1] inicial) 2 = Some f2"
proof -
  define ops where "ops = [OpIngresar zapatilla_casual, OpAgregar 1 102 1, OpFinalizar 1 1,
    OpFinalizar 1 1, OpAgregar 1 102 2, OpFinalizar 1 1]"
  from emitidas_ejemplo obtain f1 f2 where
    fs: "facturas_emitidas bus_demo ops inicial = [f1, f2]" "idFactura f1 = 1" "idFactura f2 = 2"
    unfolding ops_def [symmetric] by (auto simp: map_eq_Cons_conv)
  have "facturas (correr bus_demo ops inicial) 1 = Some f1 \<and>
        facturas (correr bus_demo ops inicial) 2 = Some f2"
    using ids_de_factura_consecutivos [of bus_demo ops] fs by auto
  then show ?thesis
    unfolding ops_def [symmetric] using fs by blast
qed

text \<open>
  C4. For an existing product and any quantity \<open>n\<close>, \<open>darSalidaProducto\<close> returns normally,
  takes \<open>n\<close> from the stock, and the events it publishes are the sale event for that
  product once per unit (\<open>nat n\<close> times: exactly \<open>n\<close> times for \<open>n \<ge> 0\<close>, never for a negative \<open>n\<close>,
  where \<^verbatim>\<open>range\<close> is empty) followed by the list \<open>agotado\<close>: one out-of-stock event when the
  resulting stock is 0, no event when it is positive (and one when it is negative).
\<close>

theorem darSalidaProducto_eventos:
  assumes "productos s idP = Some p"
  shows "\<exists>s' agotado.
           darSalidaProducto bus idP n s = (Inr (), s') \<and>
           productos s' = (productos s)(idP \<mapsto> p\<lparr>stock := stock p - n\<rparr>) \<and>
           logger s' = logger s @ replicate (nat n) (venta_realizada idP) @ agotado \<and>
           (0 \<le> n \<longrightarrow> int (length (replicate (nat n) (venta_realizada idP))) = n) \<and>
           (stock p - n = 0 \<longrightarrow> agotado = [producto_agotado idP]) \<and>
           (0 < stock p - n \<longrightarrow> agotado = []) \<and>
           (stock p - n < 0 \<longrightarrow> agotado = [producto_agotado idP])"
  using assms
  by (simp add: darSalidaProducto_Some Let_def emitir_productos emitir_logger
      publicar_ventas_productos publicar_ventas_logger producto_agotado_def)

theorem darSalidaProducto_eventos_witness:
  "(\<exists>s'. darSalidaProducto bus_demo 102 5 (guardar zapatilla_casual inicial) = (Inr (), s') \<and>
      map_option stock (productos s' 102) = Some 0 \<and>
      logger s' = [venta_realizada 102, venta_realizada 102, venta_realizada 102,
                   venta_realizada 102, venta_realizada 102, producto_agotado 102]) \<and>
   (\<exists>s'. darSalidaProducto bus_demo 102 2 (guardar zapatilla_casual inicial) = (Inr (), s') \<and>
      map_option stock (productos s' 102) = Some 3 \<and>
      logger s' = [venta_realizada 102, venta_realizada 102])"
proof -
  have p: "productos (guardar zapatilla_casual inicial) 102 =
             Some \<lparr>idProducto = 102, nombre = ''Zapatilla Casual'', descripcion = ''Daily'',
                   precio = 95000, stock = 5\<rparr>"
    by (simp add: guardar_def zapatilla_casual_def inicial_def)
  have l: "logger (guardar zapatilla_casual inicial) = []"
    by (simp add: guardar_def inicial_def)
  have r5: "replicate 5 x = [x, x, x, x, x]" and r2: "replicate 2 x = [x, x]" for x :: linea_log
    by (simp_all add: eval_nat_numeral)
  show ?thesis
    using darSalidaProducto_eventos [OF p, where n = 5 and bus = bus_demo]
      darSalidaProducto_eventos [OF p, where n = 2 and bus = bus_demo]
    by (auto simp: l r5 r2)
qed



text \<open>
  C6, as stated: add-to-cart with an absent product, or with more than the stock, raises
  an error to its caller. It does not: with product 999 absent the call returns normally
  and the failure is only written to the error log.
\<close>

theorem agregarAlCarrito_propaga_counterexample:
  "productos inicial 999 = None \<and>
   fst (agregarAlCarrito 1 999 1 inicial) = Inr () \<and>
   logger (snd (agregarAlCarrito 1 999 1 inicial)) = [Error ''Producto no encontrado'']"
  by (simp add: evaluar)

text \<open>
  C6, amended. Add-to-cart with a product id absent from the store, or with a quantity
  greater than the product's stock, returns normally; it writes one error line to the log
  and appends no line item to the cart.
\<close>

theorem agregarAlCarrito_rechazo:
  assumes "productos s idP = None \<or> (\<exists>fila. productos s idP = Some fila \<and> stock fila < cantidad)"
  shows "\<exists>s'. agregarAlCarrito idCl idP cantidad s = (Inr (), s') \<and>
           lineas_carrito s' idCl = lineas_carrito s idCl \<and>
           productos s' = productos s \<and>
           logger s' = logger s @
             [Error (if productos s idP = None then ''Producto no encontrado''
                     else ''Stock insuficiente'')]"
proof -
  let ?s0 = "clientes_setdefault idCl s"
  let ?s1 = "snd (carrito_setdefault idCl ?s0)"
  have l0: "lineas_carrito ?s0 idCl = lineas_carrito s idCl"
    by (simp add: clientes_setdefault_def lineas_carrito_def split: option.splits)
  have l1: "lineas_carrito ?s1 idCl = lineas_carrito s idCl"
    using l0 by (simp add: carrito_setdefault_lineas)
  have p1: "productos ?s1 = productos s" and g1: "logger ?s1 = logger s"
    by (simp_all add: carrito_setdefault_def clientes_setdefault_def nueva_lista_def Let_def
        split: option.splits)
  have l2: "lineas_carrito (?s1\<lparr>logger := x\<rparr>) idCl = lineas_carrito ?s1 idCl" for x
    by (simp add: lineas_carrito_def split: option.splits)
  show ?thesis
    using assms l1 p1 g1 l2
    by (auto simp: agregarAlCarrito_def case_prod_unfold)
qed

theorem agregarAlCarrito_rechazo_witness:
  "(\<exists>s'. agregarAlCarrito 1 999 1 (guardar zapatilla_casual inicial) = (Inr (), s') \<and>
      lineas_carrito s' 1 = [] \<and> logger s' = [Error ''Producto no encontrado'']) \<and>
   (\<exists>s'. agregarAlCarrito 1 102 6 (guardar zapatilla_casual inicial) = (Inr (), s') \<and>
      lineas_carrito s' 1 = [] \<and> logger s' = [Error ''Stock insuficiente''])"
proof -
  have p: "productos (guardar zapatilla_casual inicial) 102 =
             Some \<lparr>idProducto = 102, nombre = ''Zapatilla Casual'', descripcion = ''Daily'',
                   precio = 95000, stock = 5\<rparr>"
    and q: "productos (guardar zapatilla_casual inicial) 999 = None"
    and l: "logger (guardar zapatilla_casual inicial) = []"
    and c: "lineas_carrito (guardar zapatilla_casual inicial) 1 = []"
    by (simp_all add: guardar_def zapatilla_casual_def inicial_def lineas_carrito_def)
  show ?thesis
    using agregarAlCarrito_rechazo [of "guardar zapatilla_casual inicial" 999 1 1]
      agregarAlCarrito_rechazo [of "guardar zapatilla_casual inicial" 102 6 1]
    by (auto simp: p q l c)
qed



text \<open>
  C8. For a product id present in the store and any quantity \<open>n\<close>, the repository's stock
  adjustment with delta \<open>- n\<close> followed by the adjustment with delta \<open>n\<close> raises nothing and
  gives back the starting state: the stock has its original value and no other field
  of the product (nor anything else) has changed. In between the stock is \<open>stock p - n\<close>.
\<close>

theorem ajuste_ida_y_vuelta:
  assumes "productos s idP = Some p"
  shows "\<exists>s1. actualizarInventario idP (- n) s = (Inr (), s1) \<and>
           productos s1 idP = Some (p\<lparr>stock := stock p - n\<rparr>) \<and>
           actualizarInventario idP n s1 = (Inr (), s)"
proof -
  let ?s1 = "s\<lparr>productos := (productos s)(idP \<mapsto> p\<lparr>stock := stock p - n\<rparr>)\<rparr>"
  have 1: "actualizarInventario idP (- n) s = (Inr (), ?s1)"
    using assms by (simp add: actualizarInventario_def)
  have "(productos s)(idP \<mapsto> p) = productos s"
    using assms by (rule map_upd_triv)
  then have 2: "actualizarInventario idP n ?s1 = (Inr (), s)"
    by (simp add: actualizarInventario_def)
  show ?thesis using 1 2 by simp
qed

theorem ajuste_ida_y_vuelta_witness:
  "\<exists>s1. actualizarInventario 101 (- 3) (guardar zapatilla_deportiva inicial) = (Inr (), s1) \<and>
     map_option stock (productos s1 101) = Some 7 \<and>
     actualizarInventario 101 3 s1 = (Inr (), guardar zapatilla_deportiva inicial) \<and>
     map_option stock (productos (guardar zapatilla_deportiva inicial) 101) = Some 10"
  using ajuste_ida_y_vuelta [of "guardar zapatilla_deportiva inicial" 101 _ 3]
  by (auto simp: guardar_def zapatilla_deportiva_def inicial_def)

text \<open>
  C9. In a well-formed state, a successful checkout stores its invoice under the
  invoice's id; the invoice's list of line items is the copy taken from the cart when
  the invoice was created (after the inventory step), and its total the one computed at
  the start. Emptying the cart at the end of the checkout leaves that list as it was, and
  so does every later run of operations, which also leaves the invoice stored with the
  same fields.
\<close>

theorem factura_inmutable:
  assumes bf: "bien_formado s" and v: "verificar bus idCl idCa s = (Inr f, s')"
  shows "facturas s' (idFactura f) = Some f \<and>
         (\<exists>s2. descontarInventario bus (lineas_carrito s idCa) (snd (calcularTotal idCa s)) = (Inr (), s2) \<and>
               lineas_factura s' f = lineas_carrito s2 idCa) \<and>
         fa_total f = fst (calcularTotal idCa s) \<and>
         lineas_carrito s' idCa = [] \<and>
         (\<forall>b ops. facturas (correr b ops s') (idFactura f) = Some f \<and>
                   lineas_factura (correr b ops s') f = lineas_factura s' f)"
proof -
  from v obtain c s2 s3 where
    c: "carritos s idCa = Some c"
    and d: "descontarInventario bus (lineas_carrito s idCa) (snd (calcularTotal idCa s)) = (Inr (), s2)"
    and cf: "crearFactura idCl idCa (fst (calcularTotal idCa s)) s2 = (f, s3)"
    and s': "s' = vaciarCarrito idCa
            (emitir bus ''orden_completada''
               \<lparr>d_idProducto = 0, d_evento = ''Orden #'' @ str_int (idFactura f) @ '' completada''\<rparr>
               (registrarIngreso f s3))"
    by (rule verificar_Inr)
  let ?s4 = "registrarIngreso f s3"
  let ?s5 = "emitir bus ''orden_completada''
               \<lparr>d_idProducto = 0, d_evento = ''Orden #'' @ str_int (idFactura f) @ '' completada''\<rparr> ?s4"
  have "bien_formado (snd (descontarInventario bus (lineas_carrito s idCa) (snd (calcularTotal idCa s))))"
    by (intro descontarInventario_bien_formado calcularTotal_bien_formado bf)
  then have bf2: "bien_formado s2" using d by simp
  have bf3: "bien_formado s3"
    using crearFactura_bien_formado [OF bf2] cf by (metis snd_conv)
  have bf4: "bien_formado ?s4" using bf3 by (simp add: registrarIngreso_bien_formado)
  have bf5: "bien_formado ?s5" using bf4 by (rule emitir_bien_formado)
  have bf': "bien_formado s'" unfolding s' using bf5 by (rule vaciarCarrito_bien_formado)
  have f3: "facturas s3 (idFactura f) = Some f" "listas s3 (fa_productos f) = lineas_carrito s2 idCa"
    "fa_total f = fst (calcularTotal idCa s)"
    using cf by (auto simp: crearFactura_eq Let_def)
  have "facturas_intactas s3 ?s4" by (rule registrarIngreso_facturas_intactas)
  moreover have "facturas_intactas ?s4 ?s5"
    using bf4 emitir_extiende by (rule extiende_facturas_intactas)
  moreover have "facturas_intactas ?s5 s'"
    unfolding s' using bf5 by (rule vaciarCarrito_facturas_intactas)
  ultimately have "facturas_intactas s3 s'"
    by (blast intro: facturas_intactas_trans)
  then have f': "facturas s' (idFactura f) = Some f" "lineas_factura s' f = lineas_carrito s2 idCa"
    using f3 by (simp_all add: facturas_intactas_def lineas_factura_def)
  have vacio: "lineas_carrito s' idCa = []"
    using verificar_Inr_vacia [OF v] by (auto simp: lineas_carrito_def)
  have despues: "facturas (correr b ops s') (idFactura f) = Some f \<and>
                 lineas_factura (correr b ops s') f = lineas_factura s' f" for b ops
    using correr_facturas_intactas [OF bf', of b ops] f'(1)
    by (simp add: facturas_intactas_def lineas_factura_def)
  show ?thesis using f' f3(3) d vacio despues by simp
qed

theorem factura_inmutable_witness:
  "\<exists>f s'. verificar bus_demo 1 1 demo_antes_de_pagar = (Inr f, s') \<and>
     facturas s' 1 = Some f \<and>
     lineas_factura s' f = [(101, 2), (102, 1)] \<and>
     fa_total f = 335000 \<and>
     lineas_carrito s' 1 = [] \<and>
     facturas (correr bus_demo [OpAgregar 1 103 1, OpVaciar 1] s') 1 = Some f \<and>
     lineas_factura (correr bus_demo [OpAgregar 1 103 1, OpVaciar 1] s') f = [(101, 2), (102, 1)]"
proof -
  define ops where "ops = [OpAgregar 1 103 1, OpVaciar 1]"
  obtain f s' where v: "verificar bus_demo 1 1 demo_antes_de_pagar = (Inr f, s')"
    and f: "idFactura f = 1" "fa_total f = 335000"
    and l: "lineas_factura s' f = [(101, 2), (102, 1)]"
    using demo_verificar by (simp add: lineas_factura_def)
  have "facturas s' 1 = Some f \<and> lineas_carrito s' 1 = [] \<and>
        facturas (correr bus_demo ops s') 1 = Some f \<and>
        lineas_factura (correr bus_demo ops s') f = [(101, 2), (102, 1)]"
    using factura_inmutable [OF bien_formado_demo v] f l by simp
  then show ?thesis
    unfolding ops_def [symmetric] using v f l by blast
qed



end
